theory Spec2Isabelle
  imports Main
begin

section \<open>Values of the hosting runtime\<close>

text \<open>
  The worker in \<^verbatim>\<open>sw.js\<close> is written against the browser's service-worker interfaces.
  Those interfaces are modelled here as far as the worker observes them: requests,
  responses, promises by their eventual outcome, and the cache storage as named,
  ordered lists of entries. Strings are byte strings.
\<close>

record response =
  status :: nat
  rtype :: string
  statusText :: string
  body :: string

record request =
  url :: string  req_method :: string  mode :: string
  accept :: "string option"
  destination :: string
  cache :: string  credentials :: string

text \<open>The parts of \<^verbatim>\<open>new URL(...)\<close> that the worker reads.\<close>

record url_parts =
  origin :: string
  host :: string
  pathname :: string

text \<open>
  A promise is represented by how it settles; \<open>Pending\<close> is a promise that never
  settles (a hung fetch).
\<close>

datatype 'a promise = Fulfilled 'a | Rejected | Pending

text \<open>
  The JavaScript values that flow through the \<^verbatim>\<open>||\<close> chains of the fetch handler:
  \<^verbatim>\<open>undefined\<close>, a Response object, or a Promise object.
\<close>

datatype jsval = JUndefined | Resp response | PromiseV "jsval promise"

fun truthy :: "jsval \<Rightarrow> bool" where
  "truthy JUndefined = False"
| "truthy (Resp r) = True"
| "truthy (PromiseV p) = True"

text \<open>\<^verbatim>\<open>a || b\<close>: the left operand if it is truthy, otherwise the right one.\<close>

definition js_or :: "jsval \<Rightarrow> jsval \<Rightarrow> jsval" where
  "js_or a b = (if truthy a then a else b)"

text \<open>
  Resolving a promise with a value (what \<^verbatim>\<open>return v\<close> in an async function and
  \<^verbatim>\<open>await v\<close> do): a promise is adopted, any other value fulfils.
\<close>

fun resolve_value :: "jsval \<Rightarrow> jsval promise" where
  "resolve_value (PromiseV (Fulfilled v)) = resolve_value v"
| "resolve_value (PromiseV Rejected) = Rejected"
| "resolve_value (PromiseV Pending) = Pending"
| "resolve_value JUndefined = Fulfilled JUndefined"
| "resolve_value (Resp r) = Fulfilled (Resp r)"

text \<open>\<^verbatim>\<open>Response.error()\<close> and the response built at line 111 of the source.\<close>

definition Response_error :: response where
  "Response_error = \<lparr>status = 0, rtype = ''error'', statusText = '''', body = ''''\<rparr>"

definition gateway_timeout :: response where
  "gateway_timeout =
     \<lparr>status = 504, rtype = ''default'', statusText = ''Gateway Timeout'', body = ''''\<rparr>"

section \<open>Cache storage and the effect log\<close>

text \<open>
  Every call the worker makes to the runtime is recorded, in order, so that
  "nothing was read or written" is a statement about the log.
\<close>

datatype op =
    Fetch request
  | CachesOpen string
  | CachesKeys
  | CachesDelete string
  | CacheMatch string string
  | CachePut string string response
  | SkipWaiting
  | ClientsClaim

type_synonym store = "(string \<times> response) list"

record state =
  caches :: "(string \<times> store) list"
  ops :: "op list"

type_synonym network = "request \<Rightarrow> response promise"

definition emit :: "op \<Rightarrow> state \<Rightarrow> state" where
  "emit e s = s\<lparr>ops := ops s @ [e]\<rparr>"

definition store_names :: "state \<Rightarrow> string list" where
  "store_names s = map fst (caches s)"

definition store_entries :: "string \<Rightarrow> state \<Rightarrow> store" where
  "store_entries n s = (case map_of (caches s) n of None \<Rightarrow> [] | Some es \<Rightarrow> es)"

definition store_lookup :: "string \<Rightarrow> string \<Rightarrow> state \<Rightarrow> response option" where
  "store_lookup n k s = map_of (store_entries n s) k"

text \<open>The operations logged by a run: what \<open>ops\<close> gained between two states.\<close>

definition new_ops :: "state \<Rightarrow> state \<Rightarrow> op list" where
  "new_ops s s' = drop (length (ops s)) (ops s')"

text \<open>\<^verbatim>\<open>caches.open(name)\<close> creates the store when it does not exist.\<close>

definition caches_open :: "string \<Rightarrow> state \<Rightarrow> state" where
  "caches_open n s =
     emit (CachesOpen n)
       (if n \<in> set (store_names s) then s else s\<lparr>caches := caches s @ [(n, [])]\<rparr>)"

definition caches_keys :: "state \<Rightarrow> string list \<times> state" where
  "caches_keys s = (store_names s, emit CachesKeys s)"

definition caches_delete :: "string \<Rightarrow> state \<Rightarrow> state" where
  "caches_delete n s =
     emit (CachesDelete n) (s\<lparr>caches := filter (\<lambda>(m, es). m \<noteq> n) (caches s)\<rparr>)"

text \<open>\<^verbatim>\<open>cache.match(key)\<close>: the first entry stored under the key, or \<^verbatim>\<open>undefined\<close>.\<close>

definition cache_match :: "string \<Rightarrow> string \<Rightarrow> state \<Rightarrow> jsval \<times> state" where
  "cache_match n k s =
     ((case store_lookup n k s of None \<Rightarrow> JUndefined | Some r \<Rightarrow> Resp r),
      emit (CacheMatch n k) s)"

text \<open>
  \<^verbatim>\<open>cache.put(key, response)\<close>: the entries stored under the key are removed and the
  new entry is appended. Failures of the write (quota, storage) are outside the model.
\<close>

definition put_entry :: "string \<Rightarrow> response \<Rightarrow> store \<Rightarrow> store" where
  "put_entry k r es = filter (\<lambda>(k', r'). k' \<noteq> k) es @ [(k, r)]"

definition cache_put :: "string \<Rightarrow> string \<Rightarrow> response \<Rightarrow> state \<Rightarrow> state" where
  "cache_put n k r s =
     emit (CachePut n k r)
       (s\<lparr>caches := map (\<lambda>(m, es). if m = n then (m, put_entry k r es) else (m, es)) (caches s)\<rparr>)"

definition fetch :: "network \<Rightarrow> request \<Rightarrow> state \<Rightarrow> response promise \<times> state" where
  "fetch net r s = (net r, emit (Fetch r) s)"

section \<open>Constants of the worker\<close>

definition CACHE_VERSION :: string where
  "CACHE_VERSION = ''edu-ideas-v1.0.0''"

definition PRECACHE :: string where
  "PRECACHE = ''precache-'' @ CACHE_VERSION"

definition RUNTIME :: string where
  "RUNTIME = ''runtime-'' @ CACHE_VERSION"

definition PRECACHE_URLS :: "string list" where
  "PRECACHE_URLS =
     [''/'', ''./'', ''index.html'', ''manifest.json'',
      ''icon-72x72.png'', ''icon-96x96.png'', ''icon-128x128.png'', ''icon-144x144.png'',
      ''icon-152x152.png'', ''icon-180x180.png'', ''icon-192x192.png'', ''icon-384x384.png'',
      ''icon-512x512.png'']"

text \<open>
  What the worker takes from its global scope: its own location, the URL parser, and
  the resolution of a URL string against the worker's base URL (done by
  \<^verbatim>\<open>new Request(url)\<close> and by \<^verbatim>\<open>cache.match(string)\<close>).
\<close>

record config =
  location_origin :: string
  location_host :: string
  new_URL :: "string \<Rightarrow> url_parts"
  base_resolve :: "string \<Rightarrow> string"

definition reloadReq :: "config \<Rightarrow> string \<Rightarrow> request" where
  "reloadReq cfg u =
     \<lparr>url = base_resolve cfg u, req_method = ''GET'', mode = ''cors'', accept = None,
      destination = '''', cache = ''reload'', credentials = ''same-origin''\<rparr>"

definition IMAGE_HOST_WHITELIST :: "config \<Rightarrow> string list" where
  "IMAGE_HOST_WHITELIST cfg =
     [location_host cfg, ''img.youtube.com'', ''i.ytimg.com'', ''www.google.com'',
      ''s2.googleusercontent.com'', ''assets.pinterest.com'']"

section \<open>Request classification\<close>

text \<open>\<^verbatim>\<open>s.includes(t)\<close> and \<^verbatim>\<open>s.endsWith(t)\<close>.\<close>

fun str_includes :: "string \<Rightarrow> string \<Rightarrow> bool" where
  "str_includes [] t = (t = [])"
| "str_includes (c # s) t = (take (length t) (c # s) = t \<or> str_includes s t)"

definition endsWith :: "string \<Rightarrow> string \<Rightarrow> bool" where
  "endsWith s t = (length t \<le> length s \<and> drop (length s - length t) s = t)"

definition isNavigationRequest :: "request \<Rightarrow> bool" where
  "isNavigationRequest req =
     (mode req = ''navigate'' \<or>
      (req_method req = ''GET'' \<and>
       (case accept req of None \<Rightarrow> False | Some a \<Rightarrow> str_includes a ''text/html'')))"

text \<open>
  The regular expression \<^verbatim>\<open>/\.(?:png|jpg|jpeg|gif|webp|svg)(\?.*)?$/\<close>: somewhere in
  the string a dot and one of the extensions, then either the end of the string or a
  question mark followed, up to the end, by characters other than line terminators.
\<close>

definition line_terminator :: "char \<Rightarrow> bool" where
  "line_terminator c = (c = CHR 0x0A \<or> c = CHR 0x0D)"

definition query_tail :: "string \<Rightarrow> bool" where
  "query_tail rest =
     (case rest of [] \<Rightarrow> True
      | c # q \<Rightarrow> c = CHR ''?'' \<and> list_all (\<lambda>d. \<not> line_terminator d) q)"

definition image_extensions :: "string list" where
  "image_extensions = [''png'', ''jpg'', ''jpeg'', ''gif'', ''webp'', ''svg'']"

definition ext_match_here :: "string \<Rightarrow> bool" where
  "ext_match_here s =
     list_ex (\<lambda>ext. take (Suc (length ext)) s = CHR ''.'' # ext
                    \<and> query_tail (drop (Suc (length ext)) s)) image_extensions"

fun image_ext_test :: "string \<Rightarrow> bool" where
  "image_ext_test [] = ext_match_here []"
| "image_ext_test (c # s) = (ext_match_here (c # s) \<or> image_ext_test s)"

definition isImageLike :: "config \<Rightarrow> request \<Rightarrow> bool" where
  "isImageLike cfg req =
     (destination req = ''image'' \<or> image_ext_test (pathname (new_URL cfg (url req))))"

section \<open>Lifecycle: install and activate\<close>

text \<open>
  \<^verbatim>\<open>cache.addAll(requests)\<close> as the Cache interface defines it: every request is
  fetched; the call rejects when a fetch rejects or answers with a status outside
  200..299 (or 206), and it rejects a batch in which two requests have the same URL;
  a rejected call stores nothing. Otherwise the responses are stored in the order of
  the requests.
\<close>

definition addAll_rejects :: "response promise \<Rightarrow> bool" where
  "addAll_rejects p =
     (case p of Fulfilled r \<Rightarrow> \<not> (200 \<le> status r \<and> status r \<le> 299) \<or> status r = 206
      | Rejected \<Rightarrow> True
      | Pending \<Rightarrow> False)"

definition put_fetched :: "string \<Rightarrow> network \<Rightarrow> request \<Rightarrow> state \<Rightarrow> state" where
  "put_fetched n net r s =
     (case net r of Fulfilled res \<Rightarrow> cache_put n (url r) res s | Rejected \<Rightarrow> s | Pending \<Rightarrow> s)"

definition cache_addAll ::
  "string \<Rightarrow> request list \<Rightarrow> network \<Rightarrow> state \<Rightarrow> unit promise \<times> state" where
  "cache_addAll n reqs net s =
     (let s1 = fold (\<lambda>r. emit (Fetch r)) reqs s in
      if list_ex (\<lambda>r. addAll_rejects (net r)) reqs then (Rejected, s1)
      else if list_ex (\<lambda>r. net r = Pending) reqs then (Pending, s1)
      else if \<not> distinct (map url reqs) then (Rejected, s1)
      else (Fulfilled (), fold (put_fetched n net) reqs s1))"

definition install :: "config \<Rightarrow> network \<Rightarrow> state \<Rightarrow> unit promise \<times> state" where
  "install cfg net s =
     (let s1 = caches_open PRECACHE s;
          (p, s2) = cache_addAll PRECACHE (map (reloadReq cfg) PRECACHE_URLS) net s1
      in case p of
           Fulfilled u \<Rightarrow> (Fulfilled (), emit SkipWaiting s2)
         | Rejected \<Rightarrow> (Rejected, s2)
         | Pending \<Rightarrow> (Pending, s2))"

text \<open>
  Lines 41-47: the deletions requested for the enumerated names, in their order.
\<close>

definition sweep :: "string list \<Rightarrow> state \<Rightarrow> state" where
  "sweep names s =
     fold (\<lambda>name st.
        if name \<noteq> PRECACHE \<and> name \<noteq> RUNTIME then caches_delete name st else st) names s"

definition activate :: "state \<Rightarrow> unit promise \<times> state" where
  "activate s =
     (let s1 = emit ClientsClaim s;
          (names, s2) = caches_keys s1;
          s3 = sweep names s2
      in (Fulfilled (), s3))"

section \<open>The fetch handler\<close>

text \<open>
  What the handler did with the event: it returned without \<^verbatim>\<open>respondWith\<close>, or it
  called \<^verbatim>\<open>respondWith\<close> with a promise, given here by how that promise settles.
\<close>

datatype outcome = Unhandled | RespondWith "jsval promise"

text \<open>Lines 80-92: network first, then the precached \<^verbatim>\<open>index.html\<close>.\<close>

definition navigation_strategy ::
  "config \<Rightarrow> network \<Rightarrow> request \<Rightarrow> state \<Rightarrow> outcome \<times> state" where
  "navigation_strategy cfg net req s =
     (let (p, s0) = fetch net (reloadReq cfg (url req)) s in
      case p of
        Fulfilled fresh \<Rightarrow>
          (let s1 = caches_open RUNTIME s0;
               s2 = cache_put RUNTIME (url req) fresh s1
           in (RespondWith (resolve_value (Resp fresh)), s2))
      | Rejected \<Rightarrow>
          (let s1 = caches_open PRECACHE s0;
               (m, s2) = cache_match PRECACHE (base_resolve cfg ''index.html'') s1
           in (RespondWith (resolve_value (js_or m (Resp Response_error))), s2))
      | Pending \<Rightarrow> (RespondWith Pending, s0))"

text \<open>
  \<^verbatim>\<open>fetch(...).then(f).catch(() => undefined)\<close>, where \<open>cacheable\<close> is the test
  under which \<open>f\<close> writes the response to the runtime store before passing it on.
\<close>

definition revalidate ::
  "network \<Rightarrow> request \<Rightarrow> string \<Rightarrow> (response \<Rightarrow> bool) \<Rightarrow> state \<Rightarrow> jsval \<times> state" where
  "revalidate net freq key cacheable s =
     (let (p, s0) = fetch net freq s in
      case p of
        Fulfilled res \<Rightarrow>
          (PromiseV (Fulfilled (Resp res)),
           if truthy (Resp res) \<and> cacheable res then cache_put RUNTIME key res s0 else s0)
      | Rejected \<Rightarrow> (PromiseV (Fulfilled JUndefined), s0)
      | Pending \<Rightarrow> (PromiseV Pending, s0))"

text \<open>Lines 101-112.\<close>

definition same_origin_strategy :: "network \<Rightarrow> request \<Rightarrow> state \<Rightarrow> outcome \<times> state" where
  "same_origin_strategy net req s =
     (let s1 = caches_open RUNTIME s;
          (cached, s2) = cache_match RUNTIME (url req) s1;
          (networkFetch, s3) =
             revalidate net req (url req)
               (\<lambda>res. status res = 200 \<or> rtype res = ''opaqueredirect'') s2
      in (RespondWith (resolve_value (js_or cached (js_or networkFetch (Resp gateway_timeout)))),
          s3))"

text \<open>Lines 118-126.\<close>

definition image_strategy :: "network \<Rightarrow> request \<Rightarrow> state \<Rightarrow> outcome \<times> state" where
  "image_strategy net req s =
     (let s1 = caches_open RUNTIME s;
          (cached, s2) = cache_match RUNTIME (url req) s1;
          (networkFetch, s3) =
             revalidate net (req\<lparr>mode := ''cors''\<rparr>) (url req) (\<lambda>res. status res = 200) s2
      in (RespondWith (resolve_value (js_or cached (js_or networkFetch (Resp Response_error)))),
          s3))"

text \<open>Lines 131-139.\<close>

definition passthrough_strategy :: "network \<Rightarrow> request \<Rightarrow> state \<Rightarrow> outcome \<times> state" where
  "passthrough_strategy net req s =
     (let (p, s0) = fetch net req s in
      case p of
        Fulfilled res \<Rightarrow> (RespondWith (resolve_value (Resp res)), s0)
      | Rejected \<Rightarrow>
          (let s1 = caches_open RUNTIME s0;
               (cached, s2) = cache_match RUNTIME (url req) s1
           in (RespondWith (resolve_value (js_or cached (Resp Response_error))), s2))
      | Pending \<Rightarrow> (RespondWith Pending, s0))"

text \<open>The listener of lines 71-140.\<close>

definition fetch_handler ::
  "config \<Rightarrow> network \<Rightarrow> request \<Rightarrow> state \<Rightarrow> outcome \<times> state" where
  "fetch_handler cfg net req s =
     (let u = new_URL cfg (url req) in
      if req_method req \<noteq> ''GET'' then (Unhandled, s)
      else if isNavigationRequest req then navigation_strategy cfg net req s
      else if origin u = location_origin cfg then
        (if endsWith (pathname u) ''/sw.js'' then (Unhandled, s)
         else same_origin_strategy net req s)
      else if isImageLike cfg req \<and> host u \<in> set (IMAGE_HOST_WHITELIST cfg) then
        image_strategy net req s
      else passthrough_strategy net req s)"

text \<open>
  The categories of the handler's cascade (lines 76, 79, 97, 99, 117), as predicates.
\<close>

definition same_origin_static :: "config \<Rightarrow> request \<Rightarrow> bool" where
  "same_origin_static cfg req =
     (req_method req = ''GET'' \<and> \<not> isNavigationRequest req \<and>
      origin (new_URL cfg (url req)) = location_origin cfg \<and>
      \<not> endsWith (pathname (new_URL cfg (url req))) ''/sw.js'')"

definition external :: "config \<Rightarrow> request \<Rightarrow> bool" where
  "external cfg req =
     (req_method req = ''GET'' \<and> \<not> isNavigationRequest req \<and>
      origin (new_URL cfg (url req)) \<noteq> location_origin cfg)"

definition whitelisted_image :: "config \<Rightarrow> request \<Rightarrow> bool" where
  "whitelisted_image cfg req =
     (external cfg req \<and> isImageLike cfg req \<and>
      host (new_URL cfg (url req)) \<in> set (IMAGE_HOST_WHITELIST cfg))"

definition is_put :: "op \<Rightarrow> bool" where
  "is_put e = (case e of CachePut n k r \<Rightarrow> True | _ \<Rightarrow> False)"

section \<open>Notions used in the statements\<close>

text \<open>
  The two stale-while-revalidate blocks of the handler have one shape; they differ in the
  request that is fetched, in the test that guards the write, and in the last operand of
  the \<^verbatim>\<open>||\<close> chain.
\<close>

definition stale_while_revalidate ::
  "network \<Rightarrow> request \<Rightarrow> request \<Rightarrow> (response \<Rightarrow> bool) \<Rightarrow> response \<Rightarrow> state
     \<Rightarrow> outcome \<times> state" where
  "stale_while_revalidate net req freq cacheable sentinel s =
     (let s1 = caches_open RUNTIME s;
          (cached, s2) = cache_match RUNTIME (url req) s1;
          (networkFetch, s3) = revalidate net freq (url req) cacheable s2
      in (RespondWith (resolve_value (js_or cached (js_or networkFetch (Resp sentinel)))), s3))"

text \<open>The response that a revalidation writes to the runtime store, if any.\<close>

definition written :: "network \<Rightarrow> request \<Rightarrow> (response \<Rightarrow> bool) \<Rightarrow> response option" where
  "written net freq cacheable =
     (case net freq of Fulfilled res \<Rightarrow> if cacheable res then Some res else None
      | Rejected \<Rightarrow> None | Pending \<Rightarrow> None)"

text \<open>The entries of a store under one key, and two runs of the handler in sequence.\<close>

definition entries_for :: "string \<Rightarrow> store \<Rightarrow> store" where
  "entries_for k es = filter (\<lambda>(k', r). k' = k) es"

definition twice :: "config \<Rightarrow> network \<Rightarrow> network \<Rightarrow> request \<Rightarrow> state \<Rightarrow> state" where
  "twice cfg net1 net2 req s =
     snd (fetch_handler cfg net2 req (snd (fetch_handler cfg net1 req s)))"

text \<open>The names of the current generation's stores.\<close>

definition current :: "string \<Rightarrow> bool" where
  "current n = (n = PRECACHE \<or> n = RUNTIME)"

text \<open>The requests that install hands to \<^verbatim>\<open>addAll\<close>, and the writes of a fulfilled batch.\<close>

definition manifest_requests :: "config \<Rightarrow> request list" where
  "manifest_requests cfg = map (reloadReq cfg) PRECACHE_URLS"

definition fetched_puts :: "string \<Rightarrow> network \<Rightarrow> request list \<Rightarrow> op list" where
  "fetched_puts n net reqs =
     concat (map (\<lambda>r. case net r of Fulfilled res \<Rightarrow> [CachePut n (url r) res]
                          | Rejected \<Rightarrow> [] | Pending \<Rightarrow> []) reqs)"

section \<open>A concrete deployment\<close>

text \<open>
  A worker served from \<^verbatim>\<open>https://edu.example/book/sw.js\<close>, with a URL parser and a
  resolver for the \<^verbatim>\<open>https\<close> URLs used in the examples below. In this deployment
  the thirteen URLs of the manifest resolve to thirteen different URLs.
\<close>

definition demo_URL :: "string \<Rightarrow> url_parts" where
  "demo_URL u =
     (let rest = drop 8 u;
          h = takeWhile (\<lambda>c. c \<noteq> CHR ''/'') rest;
          p = takeWhile (\<lambda>c. c \<noteq> CHR ''?'') (dropWhile (\<lambda>c. c \<noteq> CHR ''/'') rest)
      in \<lparr>origin = take 8 u @ h, host = h, pathname = p\<rparr>)"

definition demo_resolve :: "string \<Rightarrow> string" where
  "demo_resolve u =
     (if take 8 u = ''https://'' then u
      else if take 1 u = ''/'' then ''https://edu.example'' @ u
      else if take 2 u = ''./'' then ''https://edu.example/book/'' @ drop 2 u
      else ''https://edu.example/book/'' @ u)"

definition demo_cfg :: config where
  "demo_cfg =
     \<lparr>location_origin = ''https://edu.example'', location_host = ''edu.example'',
      new_URL = demo_URL, base_resolve = demo_resolve\<rparr>"

definition get_req :: "string \<Rightarrow> request" where
  "get_req u =
     \<lparr>url = u, req_method = ''GET'', mode = ''no-cors'', accept = Some ''*/*'',
      destination = '''', cache = ''default'', credentials = ''same-origin''\<rparr>"

definition ok_response :: "string \<Rightarrow> response" where
  "ok_response b = \<lparr>status = 200, rtype = ''basic'', statusText = ''OK'', body = b\<rparr>"

definition offline :: network where
  "offline r = Rejected"

definition empty_state :: state where
  "empty_state = \<lparr>caches = [], ops = []\<rparr>"

definition sw_req :: request where
  "sw_req = get_req ''https://edu.example/book/sw.js''"

definition nav_req :: request where
  "nav_req = (get_req ''https://edu.example/book/'')
     \<lparr>mode := ''navigate'', accept := Some ''text/html,application/xhtml+xml''\<rparr>"

definition css_req :: request where
  "css_req = get_req ''https://edu.example/book/app.css''"

definition thumb_req :: request where
  "thumb_req = (get_req ''https://img.youtube.com/vi/abc/0.jpg'')\<lparr>destination := ''image''\<rparr>"

definition unlisted_req :: request where
  "unlisted_req = get_req ''https://cdn.example.net/photo.png?w=200''"

definition icon_req :: request where
  "icon_req = get_req ''https://edu.example/book/icon-72x72.png''"

definition serve :: "string \<Rightarrow> network" where
  "serve b r = Fulfilled (ok_response b)"

definition hung :: network where
  "hung r = Pending"

definition missing_icon :: network where
  "missing_icon r =
     (if url r = ''https://edu.example/book/icon-512x512.png'' then Rejected
      else Fulfilled (ok_response (url r)))"

text \<open>
  The deployment that the header of the source declares: the worker served from
  \<^verbatim>\<open>https://edu.example/sw.js\<close>, its scope the root. There the manifest's
  \<^verbatim>\<open>/\<close> and \<^verbatim>\<open>./\<close> resolve to one URL. The network \<open>all_ok\<close> answers every
  request with status 200.
\<close>

definition root_resolve :: "string \<Rightarrow> string" where
  "root_resolve u =
     (if take 8 u = ''https://'' then u
      else if take 1 u = ''/'' then ''https://edu.example'' @ u
      else if take 2 u = ''./'' then ''https://edu.example/'' @ drop 2 u
      else ''https://edu.example/'' @ u)"

definition root_cfg :: config where
  "root_cfg =
     \<lparr>location_origin = ''https://edu.example'', location_host = ''edu.example'',
      new_URL = demo_URL, base_resolve = root_resolve\<rparr>"

definition all_ok :: network where
  "all_ok r = Fulfilled (ok_response (url r))"

definition precached_state :: state where
  "precached_state =
     \<lparr>caches = [(PRECACHE,
                  [(''https://edu.example/book/index.html'', ok_response ''shell''),
                   (''https://edu.example/book/icon-72x72.png'', ok_response ''icon'')])],
      ops = []\<rparr>"

definition warm_state :: state where
  "warm_state =
     \<lparr>caches = [(RUNTIME,
                  [(''https://edu.example/book/app.css'', ok_response ''v1''),
                   (''https://img.youtube.com/vi/abc/0.jpg'', ok_response ''t1'')])],
      ops = []\<rparr>"

definition upgraded_state :: state where
  "upgraded_state =
     \<lparr>caches = [(''precache-edu-ideas-v0.8.0'', [(''https://edu.example/book/index.html'', ok_response ''old'')]),
                (''runtime-edu-ideas-v0.9.0'', []),
                (''precache-edu-ideas-v0.9.5'', []),
                (PRECACHE, [(''https://edu.example/book/index.html'', ok_response ''shell'')]),
                (RUNTIME, [(''https://edu.example/book/app.css'', ok_response ''v1'')])],
      ops = []\<rparr>"

section \<open>Facts about the cache storage\<close>

lemma ops_emit: "ops (emit e s) = ops s @ [e]"
  by (simp add: emit_def)

lemma caches_emit: "caches (emit e s) = caches s"
  by (simp add: emit_def)

lemma store_entries_emit: "store_entries n (emit e s) = store_entries n s"
  by (simp add: store_entries_def caches_emit)

lemma store_names_emit: "store_names (emit e s) = store_names s"
  by (simp add: store_names_def caches_emit)

lemma store_lookup_emit: "store_lookup n k (emit e s) = store_lookup n k s"
  by (simp add: store_lookup_def store_entries_emit)

lemma ops_caches_open: "ops (caches_open n s) = ops s @ [CachesOpen n]"
  by (simp add: caches_open_def ops_emit)

lemma map_of_absent: "n \<notin> set (map fst xs) \<Longrightarrow> map_of xs n = None"
  by (simp add: map_of_eq_None_iff)

lemma store_entries_caches_open: "store_entries m (caches_open n s) = store_entries m s"
proof (cases "n \<in> set (store_names s)")
  case True
  then show ?thesis by (simp add: caches_open_def store_entries_emit)
next
  case False
  then have "map_of (caches s) n = None"
    by (simp add: store_names_def map_of_eq_None_iff)
  then show ?thesis using False
    by (simp add: caches_open_def store_entries_emit)
       (auto simp: store_entries_def map_add_def split: option.splits)
qed

lemma store_lookup_caches_open: "store_lookup m k (caches_open n s) = store_lookup m k s"
  by (simp add: store_lookup_def store_entries_caches_open)

lemma store_names_caches_open: "set (store_names (caches_open n s)) = insert n (set (store_names s))"
  by (auto simp: caches_open_def store_names_emit) (auto simp: store_names_def)

lemma ops_cache_put: "ops (cache_put n k r s) = ops s @ [CachePut n k r]"
  by (simp add: cache_put_def ops_emit)

lemma store_names_cache_put: "store_names (cache_put n k r s) = store_names s"
  by (simp add: cache_put_def store_names_emit) (simp add: store_names_def comp_def case_prod_beta)

lemma map_of_put:
  "map_of (map (\<lambda>(m, es). if m = n then (m, f es) else (m, es)) xs) m' =
     (if m' = n then map_option f (map_of xs m') else map_of xs m')"
  by (induction xs) auto

lemma store_entries_cache_put:
  "store_entries m (cache_put n k r s) =
     (if m = n \<and> n \<in> set (store_names s) then put_entry k r (store_entries n s)
      else store_entries m s)"
proof -
  have "n \<notin> set (store_names s) \<Longrightarrow> map_of (caches s) n = None"
    by (simp add: store_names_def map_of_eq_None_iff)
  moreover have "n \<in> set (store_names s) \<Longrightarrow> \<exists>es. map_of (caches s) n = Some es"
    by (metis not_Some_eq map_of_eq_None_iff store_names_def list.set_map)
  ultimately show ?thesis
    by (auto simp: cache_put_def store_entries_emit)
       (auto simp: store_entries_def map_of_put put_entry_def)
qed

lemma map_of_put_entry:
  "map_of (put_entry k r es) k' = (if k' = k then Some r else map_of es k')"
  by (induction es) (auto simp: put_entry_def)

lemma store_lookup_cache_put:
  "store_lookup m k' (cache_put n k r s) =
     (if m = n \<and> n \<in> set (store_names s) \<and> k' = k then Some r else store_lookup m k' s)"
  by (simp add: store_lookup_def store_entries_cache_put map_of_put_entry)

lemma new_ops_append: "ops s' = ops s @ xs \<Longrightarrow> new_ops s s' = xs"
  by (simp add: new_ops_def)

lemma entries_for_put_entry: "entries_for k (put_entry k r es) = [(k, r)]"
  by (induction es) (auto simp: entries_for_def put_entry_def)

lemma map_of_filter_fst:
  "map_of (filter (\<lambda>(m, es). P m) xs) n = (if P n then map_of xs n else None)"
  by (induction xs) auto

lemma ops_fold_emit: "ops (fold (\<lambda>r. emit (f r)) reqs s) = ops s @ map f reqs"
  by (induction reqs arbitrary: s) (simp_all add: ops_emit)

lemma caches_fold_emit: "caches (fold (\<lambda>r. emit (f r)) reqs s) = caches s"
  by (induction reqs arbitrary: s) (simp_all add: caches_emit)

lemma store_names_fold_emit: "store_names (fold (\<lambda>r. emit (f r)) reqs s) = store_names s"
  by (simp add: store_names_def caches_fold_emit)

section \<open>Facts about the strategies\<close>

lemma same_origin_strategy_swr:
  "same_origin_strategy net req =
     stale_while_revalidate net req req
       (\<lambda>res. status res = 200 \<or> rtype res = ''opaqueredirect'') gateway_timeout"
  by (rule ext) (simp add: same_origin_strategy_def stale_while_revalidate_def)

lemma image_strategy_swr:
  "image_strategy net req =
     stale_while_revalidate net req (req\<lparr>mode := ''cors''\<rparr>)
       (\<lambda>res. status res = 200) Response_error"
  by (rule ext) (simp add: image_strategy_def stale_while_revalidate_def)

lemma swr_fst:
  "fst (stale_while_revalidate net req freq cacheable sentinel s) =
     RespondWith
       (case store_lookup RUNTIME (url req) s of
          Some c \<Rightarrow> Fulfilled (Resp c)
        | None \<Rightarrow>
            (case net freq of Fulfilled res \<Rightarrow> Fulfilled (Resp res)
             | Rejected \<Rightarrow> Fulfilled JUndefined | Pending \<Rightarrow> Pending))"
  by (simp add: Let_def stale_while_revalidate_def cache_match_def revalidate_def fetch_def js_or_def
      store_lookup_caches_open split: option.splits promise.splits)

lemma swr_ops:
  "ops (snd (stale_while_revalidate net req freq cacheable sentinel s)) =
     ops s @ [CachesOpen RUNTIME, CacheMatch RUNTIME (url req), Fetch freq] @
       (case written net freq cacheable of Some res \<Rightarrow> [CachePut RUNTIME (url req) res]
        | None \<Rightarrow> [])"
  by (simp add: Let_def stale_while_revalidate_def cache_match_def revalidate_def fetch_def written_def
      ops_emit ops_caches_open ops_cache_put split: option.splits promise.splits)

lemma swr_entries:
  "store_entries n (snd (stale_while_revalidate net req freq cacheable sentinel s)) =
     (case written net freq cacheable of
        Some res \<Rightarrow> if n = RUNTIME then put_entry (url req) res (store_entries RUNTIME s)
                    else store_entries n s
      | None \<Rightarrow> store_entries n s)"
  by (simp add: Let_def stale_while_revalidate_def cache_match_def revalidate_def fetch_def written_def
      store_entries_emit store_entries_caches_open store_entries_cache_put store_names_emit
      store_names_caches_open split: option.splits promise.splits)

lemma swr_runtime_exists:
  "RUNTIME \<in> set (store_names (snd (stale_while_revalidate net req freq cacheable sentinel s)))"
  by (simp add: Let_def stale_while_revalidate_def cache_match_def revalidate_def fetch_def
      store_names_emit store_names_caches_open store_names_cache_put split: promise.splits)

lemma passthrough_fst:
  "fst (passthrough_strategy net req s) =
     RespondWith
       (case net req of
          Fulfilled res \<Rightarrow> Fulfilled (Resp res)
        | Rejected \<Rightarrow>
            (case store_lookup RUNTIME (url req) s of
               Some c \<Rightarrow> Fulfilled (Resp c) | None \<Rightarrow> Fulfilled (Resp Response_error))
        | Pending \<Rightarrow> Pending)"
  by (simp add: Let_def passthrough_strategy_def fetch_def cache_match_def js_or_def
      store_lookup_caches_open store_lookup_emit split: promise.splits option.splits)

lemma passthrough_ops:
  "ops (snd (passthrough_strategy net req s)) =
     ops s @ Fetch req #
       (case net req of
          Fulfilled res \<Rightarrow> []
        | Rejected \<Rightarrow> [CachesOpen RUNTIME, CacheMatch RUNTIME (url req)]
        | Pending \<Rightarrow> [])"
  by (simp add: Let_def passthrough_strategy_def fetch_def cache_match_def ops_emit
      ops_caches_open split: promise.splits)

lemma passthrough_entries:
  "store_entries n (snd (passthrough_strategy net req s)) = store_entries n s"
  by (simp add: Let_def passthrough_strategy_def fetch_def cache_match_def store_entries_emit
      store_entries_caches_open split: promise.splits)

lemma navigation_ops:
  "ops (snd (navigation_strategy cfg net req s)) =
     ops s @ Fetch (reloadReq cfg (url req)) #
       (case net (reloadReq cfg (url req)) of
          Fulfilled fresh \<Rightarrow> [CachesOpen RUNTIME, CachePut RUNTIME (url req) fresh]
        | Rejected \<Rightarrow>
            [CachesOpen PRECACHE, CacheMatch PRECACHE (base_resolve cfg ''index.html'')]
        | Pending \<Rightarrow> [])"
  by (simp add: Let_def navigation_strategy_def fetch_def cache_match_def ops_emit
      ops_caches_open ops_cache_put split: promise.splits)

lemma handler_same_origin:
  "same_origin_static cfg req \<Longrightarrow> fetch_handler cfg net req s = same_origin_strategy net req s"
  by (simp add: same_origin_static_def fetch_handler_def)

lemma handler_image:
  "whitelisted_image cfg req \<Longrightarrow> fetch_handler cfg net req s = image_strategy net req s"
  by (simp add: whitelisted_image_def external_def fetch_handler_def)

lemma miss_offline_undefined:
  assumes "store_lookup RUNTIME (url req) s = None"
  shows "same_origin_static cfg req \<Longrightarrow> net req = Rejected \<Longrightarrow>
           fst (fetch_handler cfg net req s) = RespondWith (Fulfilled JUndefined)"
    and "whitelisted_image cfg req \<Longrightarrow> net (req\<lparr>mode := ''cors''\<rparr>) = Rejected \<Longrightarrow>
           fst (fetch_handler cfg net req s) = RespondWith (Fulfilled JUndefined)"
  using assms
  by (simp_all add: handler_same_origin handler_image same_origin_strategy_swr
      image_strategy_swr swr_fst)

lemma handler_cases:
  "fetch_handler cfg net req s = (Unhandled, s) \<or>
   (isNavigationRequest req \<and> fetch_handler cfg net req s = navigation_strategy cfg net req s) \<or>
   (\<not> isNavigationRequest req \<and>
      (fetch_handler cfg net req s = same_origin_strategy net req s \<or>
       fetch_handler cfg net req s = image_strategy net req s \<or>
       fetch_handler cfg net req s = passthrough_strategy net req s))"
  by (simp add: fetch_handler_def Let_def)

section \<open>Facts about the lifecycle steps\<close>

lemma sweep_Nil: "sweep [] s = s"
  by (simp add: sweep_def)

lemma sweep_Cons:
  "sweep (n # ns) s = sweep ns (if current n then s else caches_delete n s)"
  by (simp add: sweep_def current_def)

lemma caches_sweep:
  "caches (sweep ns s) = filter (\<lambda>(m, es). current m \<or> m \<notin> set ns) (caches s)"
proof (induction ns arbitrary: s)
  case Nil
  then show ?case by (simp add: sweep_Nil)
next
  case (Cons n ns)
  have "filter (\<lambda>(m, es). current m \<or> m \<notin> set ns) (filter (\<lambda>(m, es). m \<noteq> n) xs)
          = filter (\<lambda>(m, es). current m \<or> m \<notin> set (n # ns)) xs"
    if "\<not> current n" for xs :: "(string \<times> store) list"
    using that by (induction xs) auto
  moreover have "filter (\<lambda>(m, es). current m \<or> m \<notin> set ns) xs
          = filter (\<lambda>(m, es). current m \<or> m \<notin> set (n # ns)) xs"
    if "current n" for xs :: "(string \<times> store) list"
    using that by (induction xs) auto
  ultimately show ?case
    by (simp add: sweep_Cons Cons.IH caches_delete_def caches_emit)
qed

lemma ops_sweep:
  "ops (sweep ns s) = ops s @ map CachesDelete (filter (\<lambda>n. \<not> current n) ns)"
proof (induction ns arbitrary: s)
  case Nil
  then show ?case by (simp add: sweep_Nil)
next
  case (Cons n ns)
  then show ?case by (simp add: sweep_Cons caches_delete_def ops_emit)
qed

lemma activate_sweep:
  "activate s = (Fulfilled (), sweep (store_names s) (emit CachesKeys (emit ClientsClaim s)))"
  by (simp add: activate_def caches_keys_def Let_def store_names_emit)

lemma caches_activate:
  "caches (snd (activate s)) = filter (\<lambda>(m, es). current m) (caches s)"
proof -
  have "filter (\<lambda>(m, es). current m \<or> m \<notin> fst ` set xs) xs = filter (\<lambda>(m, es). current m) xs"
    for xs :: "(string \<times> store) list"
    by (rule filter_cong) (auto simp: image_iff)
  then show ?thesis
    by (simp add: activate_sweep caches_sweep caches_emit store_names_def)
qed

lemma ops_fold_put_fetched:
  "ops (fold (put_fetched n net) reqs s) = ops s @ fetched_puts n net reqs"
  by (induction reqs arbitrary: s)
     (simp_all add: fetched_puts_def put_fetched_def ops_cache_put split: promise.splits)

lemma store_names_put_fetched: "store_names (put_fetched n net r s) = store_names s"
  by (simp add: put_fetched_def store_names_cache_put split: promise.splits)

lemma lookup_fold_put_fetched:
  assumes "\<forall>r\<in>set reqs. url r = k \<longrightarrow> net r = Fulfilled res"
    and "n \<in> set (store_names s)"
    and "store_lookup n k s = Some res \<or> (\<exists>r\<in>set reqs. url r = k)"
  shows "store_lookup n k (fold (put_fetched n net) reqs s) = Some res"
  using assms
proof (induction reqs arbitrary: s)
  case Nil
  then show ?case by simp
next
  case (Cons r rs)
  let ?s = "put_fetched n net r s"
  have names: "n \<in> set (store_names ?s)"
    using Cons.prems(2) by (simp add: store_names_put_fetched)
  have rest: "\<forall>r\<in>set rs. url r = k \<longrightarrow> net r = Fulfilled res"
    using Cons.prems(1) by simp
  have "store_lookup n k ?s = Some res \<or> (\<exists>r\<in>set rs. url r = k)"
  proof (cases "url r = k")
    case True
    then have "net r = Fulfilled res" using Cons.prems(1) by simp
    then show ?thesis
      using True Cons.prems(2) by (simp add: put_fetched_def store_lookup_cache_put)
  next
    case False
    then have "store_lookup n k ?s = store_lookup n k s"
      by (simp add: put_fetched_def store_lookup_cache_put split: promise.splits)
    then show ?thesis using Cons.prems(3) False by auto
  qed
  from Cons.IH [OF rest names this] show ?case by simp
qed

lemma install_unfold:
  "install cfg net s =
     (let s1 = fold (\<lambda>r. emit (Fetch r)) (manifest_requests cfg) (caches_open PRECACHE s) in
      if list_ex (\<lambda>r. addAll_rejects (net r)) (manifest_requests cfg) then (Rejected, s1)
      else if list_ex (\<lambda>r. net r = Pending) (manifest_requests cfg) then (Pending, s1)
      else if \<not> distinct (map url (manifest_requests cfg)) then (Rejected, s1)
      else (Fulfilled (),
            emit SkipWaiting (fold (put_fetched PRECACHE net) (manifest_requests cfg) s1)))"
  by (simp add: install_def cache_addAll_def manifest_requests_def Let_def)

lemma install_ops:
  "new_ops s (snd (install cfg net s)) =
     CachesOpen PRECACHE # map Fetch (manifest_requests cfg) @
       (if fst (install cfg net s) = Fulfilled ()
        then fetched_puts PRECACHE net (manifest_requests cfg) @ [SkipWaiting] else [])"
  by (simp add: install_unfold Let_def new_ops_def ops_emit ops_fold_emit ops_caches_open
      ops_fold_put_fetched)

lemma reloadReq_same_key:
  "url (reloadReq cfg u') = url (reloadReq cfg u) \<Longrightarrow> reloadReq cfg u' = reloadReq cfg u"
  by (simp add: reloadReq_def)

section \<open>Facts about the concrete deployment\<close>

lemma demo_fields:
  "location_origin demo_cfg = ''https://edu.example''"
  "location_host demo_cfg = ''edu.example''"
  "new_URL demo_cfg = demo_URL"
  "base_resolve demo_cfg = demo_resolve"
  by (simp_all add: demo_cfg_def)

lemmas demo_simps =
  demo_fields demo_URL_def demo_resolve_def get_req_def Let_def isNavigationRequest_def
  endsWith_def PRECACHE_def RUNTIME_def CACHE_VERSION_def store_lookup_def store_entries_def
  store_names_def ok_response_def

lemma css_static: "same_origin_static demo_cfg css_req"
  by (simp add: same_origin_static_def css_req_def demo_simps)

lemma thumb_image: "whitelisted_image demo_cfg thumb_req"
  by (simp add: whitelisted_image_def external_def isImageLike_def IMAGE_HOST_WHITELIST_def
      thumb_req_def demo_simps)

lemma unlisted_external: "external demo_cfg unlisted_req"
  by (simp add: external_def unlisted_req_def demo_simps)

lemma icon_static: "same_origin_static demo_cfg icon_req"
  by (simp add: same_origin_static_def icon_req_def demo_simps)

lemma thumb_image_miss:
  "store_lookup RUNTIME (url thumb_req) empty_state = None"
  by (simp add: empty_state_def demo_simps)

section \<open>Requests the handler leaves alone\<close>

text \<open>
  Claim C8. A request whose method is not GET is left alone: the handler returns
  without \<^verbatim>\<open>respondWith\<close>, and the state, including the log of cache and network
  operations, is what it was.
\<close>

theorem non_get_unhandled:
  assumes "req_method req \<noteq> ''GET''"
  shows "fetch_handler cfg net req s = (Unhandled, s)"
  using assms by (simp add: fetch_handler_def)

text \<open>A POST to the worker's own origin, with the network down and no stores.\<close>

theorem non_get_unhandled_witness:
  "req_method ((get_req ''https://edu.example/book/api'')\<lparr>req_method := ''POST''\<rparr>) \<noteq> ''GET'' \<and>
   fetch_handler demo_cfg offline ((get_req ''https://edu.example/book/api'')\<lparr>req_method := ''POST''\<rparr>)
     empty_state = (Unhandled, empty_state)"
  using non_get_unhandled [of "(get_req ''https://edu.example/book/api'')\<lparr>req_method := ''POST''\<rparr>"
      demo_cfg offline empty_state]
  by (simp add: get_req_def)

text \<open>
  Claim C10. A GET request to the worker's own origin that is not a navigation and whose
  path ends in \<^verbatim>\<open>/sw.js\<close> is left unhandled: the handler returns without
  \<^verbatim>\<open>respondWith\<close> (it is not routed to the passthrough strategy), and since the state
  with its log is unchanged, no cache was read or written.
\<close>

theorem worker_script_unhandled:
  assumes "req_method req = ''GET''" and "\<not> isNavigationRequest req"
    and "origin (new_URL cfg (url req)) = location_origin cfg"
    and "endsWith (pathname (new_URL cfg (url req))) ''/sw.js''"
  shows "fetch_handler cfg net req s = (Unhandled, s)"
  using assms by (simp add: fetch_handler_def)

text \<open>The worker script itself, requested from the concrete deployment.\<close>

theorem worker_script_unhandled_witness:
  "req_method sw_req = ''GET'' \<and> \<not> isNavigationRequest sw_req \<and>
   origin (new_URL demo_cfg (url sw_req)) = location_origin demo_cfg \<and>
   endsWith (pathname (new_URL demo_cfg (url sw_req))) ''/sw.js'' \<and>
   fetch_handler demo_cfg offline sw_req empty_state = (Unhandled, empty_state)"
proof -
  have h: "req_method sw_req = ''GET''" "\<not> isNavigationRequest sw_req"
    "origin (new_URL demo_cfg (url sw_req)) = location_origin demo_cfg"
    "endsWith (pathname (new_URL demo_cfg (url sw_req))) ''/sw.js''"
    by (simp_all add: sw_req_def get_req_def isNavigationRequest_def demo_fields demo_URL_def
        endsWith_def Let_def)
  from worker_script_unhandled [OF h] h show ?thesis by simp
qed

section \<open>Navigation while offline\<close>

text \<open>
  Claim C2. For a request that the handler treats as a navigation (a GET request that
  \<open>isNavigationRequest\<close> accepts) and whose network fetch rejects: if the precache store
  holds an entry for \<^verbatim>\<open>index.html\<close>, the response is that stored document; if it holds
  none, the response is \<^verbatim>\<open>Response.error()\<close>.
\<close>

theorem offline_navigation_fallback:
  assumes "req_method req = ''GET''" and "isNavigationRequest req"
    and "net (reloadReq cfg (url req)) = Rejected"
  shows "(\<forall>doc. store_lookup PRECACHE (base_resolve cfg ''index.html'') s = Some doc \<longrightarrow>
            fst (fetch_handler cfg net req s) = RespondWith (Fulfilled (Resp doc))) \<and>
         (store_lookup PRECACHE (base_resolve cfg ''index.html'') s = None \<longrightarrow>
            fst (fetch_handler cfg net req s) = RespondWith (Fulfilled (Resp Response_error)))"
  using assms
  by (simp add: fetch_handler_def navigation_strategy_def fetch_def cache_match_def Let_def
      js_or_def store_lookup_caches_open store_lookup_emit)

text \<open>An offline navigation to the root, with and without the precached shell.\<close>

theorem offline_navigation_fallback_witness:
  "req_method nav_req = ''GET'' \<and> isNavigationRequest nav_req \<and>
   offline (reloadReq demo_cfg (url nav_req)) = Rejected \<and>
   fst (fetch_handler demo_cfg offline nav_req precached_state)
     = RespondWith (Fulfilled (Resp (ok_response ''shell''))) \<and>
   fst (fetch_handler demo_cfg offline nav_req empty_state)
     = RespondWith (Fulfilled (Resp Response_error))"
proof -
  have h: "req_method nav_req = ''GET''" "isNavigationRequest nav_req"
    "offline (reloadReq demo_cfg (url nav_req)) = Rejected"
    by (simp_all add: nav_req_def offline_def demo_simps)
  have p: "store_lookup PRECACHE (base_resolve demo_cfg ''index.html'') precached_state
             = Some (ok_response ''shell'')"
    by (simp add: precached_state_def demo_simps)
  have e: "store_lookup PRECACHE (base_resolve demo_cfg ''index.html'') empty_state = None"
    by (simp add: empty_state_def demo_simps)
  from offline_navigation_fallback
      [where req = nav_req and net = offline and cfg = demo_cfg and s = precached_state]
    offline_navigation_fallback
      [where req = nav_req and net = offline and cfg = demo_cfg and s = empty_state] h p e
  show ?thesis by simp
qed

section \<open>Stale-while-revalidate\<close>

text \<open>
  Claim C5. When the runtime store holds an entry \<open>c\<close> for the request, a same-origin
  static request is answered with \<open>c\<close> whatever the network does, also when the fetch
  never settles; the handler writes to a cache exactly when the fetch resolves with status
  200 or with type \<^verbatim>\<open>opaqueredirect\<close>, and the write replaces the entry under the
  request's key. For an image from a listed host the same holds with status 200 as the
  only trigger.
\<close>

theorem stale_entry_served_and_refreshed:
  assumes "store_lookup RUNTIME (url req) s = Some c"
  shows "(same_origin_static cfg req \<longrightarrow>
            fst (fetch_handler cfg net req s) = RespondWith (Fulfilled (Resp c)) \<and>
            filter is_put (new_ops s (snd (fetch_handler cfg net req s))) =
              (case net req of
                 Fulfilled res \<Rightarrow>
                   if status res = 200 \<or> rtype res = ''opaqueredirect''
                   then [CachePut RUNTIME (url req) res] else []
               | Rejected \<Rightarrow> [] | Pending \<Rightarrow> []) \<and>
            store_lookup RUNTIME (url req) (snd (fetch_handler cfg net req s)) =
              (case net req of
                 Fulfilled res \<Rightarrow>
                   if status res = 200 \<or> rtype res = ''opaqueredirect''
                   then Some res else Some c
               | Rejected \<Rightarrow> Some c | Pending \<Rightarrow> Some c)) \<and>
         (whitelisted_image cfg req \<longrightarrow>
            fst (fetch_handler cfg net req s) = RespondWith (Fulfilled (Resp c)) \<and>
            filter is_put (new_ops s (snd (fetch_handler cfg net req s))) =
              (case net (req\<lparr>mode := ''cors''\<rparr>) of
                 Fulfilled res \<Rightarrow>
                   if status res = 200 then [CachePut RUNTIME (url req) res] else []
               | Rejected \<Rightarrow> [] | Pending \<Rightarrow> []) \<and>
            store_lookup RUNTIME (url req) (snd (fetch_handler cfg net req s)) =
              (case net (req\<lparr>mode := ''cors''\<rparr>) of
                 Fulfilled res \<Rightarrow> if status res = 200 then Some res else Some c
               | Rejected \<Rightarrow> Some c | Pending \<Rightarrow> Some c))"
proof -
  have swr: "fst (stale_while_revalidate net req freq cacheable sentinel s)
               = RespondWith (Fulfilled (Resp c)) \<and>
             filter is_put (new_ops s (snd (stale_while_revalidate net req freq cacheable sentinel s)))
               = (case written net freq cacheable of
                    Some res \<Rightarrow> [CachePut RUNTIME (url req) res] | None \<Rightarrow> []) \<and>
             store_lookup RUNTIME (url req)
                 (snd (stale_while_revalidate net req freq cacheable sentinel s))
               = (case written net freq cacheable of Some res \<Rightarrow> Some res | None \<Rightarrow> Some c)"
    for freq cacheable sentinel
  proof (intro conjI)
    show "fst (stale_while_revalidate net req freq cacheable sentinel s)
            = RespondWith (Fulfilled (Resp c))"
      using assms by (simp add: swr_fst)
    show "filter is_put (new_ops s (snd (stale_while_revalidate net req freq cacheable sentinel s)))
            = (case written net freq cacheable of
                 Some res \<Rightarrow> [CachePut RUNTIME (url req) res] | None \<Rightarrow> [])"
      by (simp add: new_ops_def swr_ops is_put_def split: option.splits)
    show "store_lookup RUNTIME (url req)
              (snd (stale_while_revalidate net req freq cacheable sentinel s))
            = (case written net freq cacheable of Some res \<Rightarrow> Some res | None \<Rightarrow> Some c)"
      using assms
      by (simp add: store_lookup_def swr_entries map_of_put_entry split: option.splits)
  qed
  show ?thesis
    using swr [of req "\<lambda>res. status res = 200 \<or> rtype res = ''opaqueredirect''" gateway_timeout]
      swr [of "req\<lparr>mode := ''cors''\<rparr>" "\<lambda>res. status res = 200" Response_error]
    by (auto simp: handler_same_origin handler_image same_origin_strategy_swr image_strategy_swr
        written_def split: promise.splits)
qed

text \<open>
  A cached stylesheet with a hung network and with a network that answers, and a cached
  thumbnail from a listed host.
\<close>

theorem stale_entry_served_and_refreshed_witness:
  "store_lookup RUNTIME (url css_req) warm_state = Some (ok_response ''v1'') \<and>
   same_origin_static demo_cfg css_req \<and>
   fst (fetch_handler demo_cfg hung css_req warm_state)
     = RespondWith (Fulfilled (Resp (ok_response ''v1''))) \<and>
   store_lookup RUNTIME (url css_req) (snd (fetch_handler demo_cfg hung css_req warm_state))
     = Some (ok_response ''v1'') \<and>
   fst (fetch_handler demo_cfg (serve ''v2'') css_req warm_state)
     = RespondWith (Fulfilled (Resp (ok_response ''v1''))) \<and>
   store_lookup RUNTIME (url css_req)
       (snd (fetch_handler demo_cfg (serve ''v2'') css_req warm_state))
     = Some (ok_response ''v2'') \<and>
   store_lookup RUNTIME (url thumb_req) warm_state = Some (ok_response ''t1'') \<and>
   whitelisted_image demo_cfg thumb_req \<and>
   fst (fetch_handler demo_cfg (serve ''t2'') thumb_req warm_state)
     = RespondWith (Fulfilled (Resp (ok_response ''t1''))) \<and>
   store_lookup RUNTIME (url thumb_req)
       (snd (fetch_handler demo_cfg (serve ''t2'') thumb_req warm_state))
     = Some (ok_response ''t2'')"
proof -
  have c: "store_lookup RUNTIME (url css_req) warm_state = Some (ok_response ''v1'')"
    by (simp add: warm_state_def css_req_def demo_simps)
  have t: "store_lookup RUNTIME (url thumb_req) warm_state = Some (ok_response ''t1'')"
    by (simp add: warm_state_def thumb_req_def demo_simps)
  have n: "hung css_req = Pending" "serve ''v2'' css_req = Fulfilled (ok_response ''v2'')"
    "serve ''t2'' (thumb_req\<lparr>mode := ''cors''\<rparr>) = Fulfilled (ok_response ''t2'')"
    "status (ok_response ''v2'') = 200" "status (ok_response ''t2'') = 200"
    by (simp_all add: hung_def serve_def ok_response_def)
  from stale_entry_served_and_refreshed [OF c, of demo_cfg hung]
    stale_entry_served_and_refreshed [OF c, of demo_cfg "serve ''v2''"]
    stale_entry_served_and_refreshed [OF t, of demo_cfg "serve ''t2''"]
    css_static thumb_image c t n
  show ?thesis by simp
qed

text \<open>
  Claim C6. Running the handler twice in sequence on the same stale-while-revalidate
  request, both fetches resolving with a response that passes the strategy's test, leaves
  the runtime store with exactly one entry under the request's key, and that entry is the
  second response.
\<close>

theorem revalidating_twice_keeps_one_entry:
  "(same_origin_static cfg req \<and>
      net1 req = Fulfilled r1 \<and> (status r1 = 200 \<or> rtype r1 = ''opaqueredirect'') \<and>
      net2 req = Fulfilled r2 \<and> (status r2 = 200 \<or> rtype r2 = ''opaqueredirect'')
    \<longrightarrow> entries_for (url req) (store_entries RUNTIME (twice cfg net1 net2 req s))
          = [(url req, r2)]) \<and>
   (whitelisted_image cfg req \<and>
      net1 (req\<lparr>mode := ''cors''\<rparr>) = Fulfilled r1 \<and> status r1 = 200 \<and>
      net2 (req\<lparr>mode := ''cors''\<rparr>) = Fulfilled r2 \<and> status r2 = 200
    \<longrightarrow> entries_for (url req) (store_entries RUNTIME (twice cfg net1 net2 req s))
          = [(url req, r2)])"
  by (simp add: twice_def handler_same_origin handler_image same_origin_strategy_swr
      image_strategy_swr swr_entries written_def entries_for_put_entry)

text \<open>Two runs for a stylesheet from no stores at all, and two for a cached thumbnail.\<close>

theorem revalidating_twice_keeps_one_entry_witness:
  "same_origin_static demo_cfg css_req \<and>
   entries_for (url css_req)
       (store_entries RUNTIME (twice demo_cfg (serve ''v1'') (serve ''v2'') css_req empty_state))
     = [(url css_req, ok_response ''v2'')] \<and>
   whitelisted_image demo_cfg thumb_req \<and>
   entries_for (url thumb_req)
       (store_entries RUNTIME (twice demo_cfg (serve ''t1'') (serve ''t2'') thumb_req warm_state))
     = [(url thumb_req, ok_response ''t2'')]"
  using revalidating_twice_keeps_one_entry
      [of demo_cfg css_req "serve ''v1''" "ok_response ''v1''" "serve ''v2''" "ok_response ''v2''"
        empty_state]
    revalidating_twice_keeps_one_entry
      [of demo_cfg thumb_req "serve ''t1''" "ok_response ''t1''" "serve ''t2''" "ok_response ''t2''"
        warm_state]
    css_static thumb_image
  by (simp add: serve_def ok_response_def)

section \<open>Images from hosts that are not listed\<close>

text \<open>
  Claim C7. A GET request to another origin that is not a navigation, that
  \<open>isImageLike\<close> accepts (destination image, or a path with an image extension) and
  whose host is not in \<open>IMAGE_HOST_WHITELIST\<close> is handled by the passthrough strategy,
  not by the image strategy; the run performs no \<^verbatim>\<open>cache.put\<close> and leaves the entries
  of every store as they were.
\<close>

theorem unlisted_image_passes_through:
  assumes "external cfg req" and "isImageLike cfg req"
    and "host (new_URL cfg (url req)) \<notin> set (IMAGE_HOST_WHITELIST cfg)"
  shows "fetch_handler cfg net req s = passthrough_strategy net req s \<and>
         filter is_put (new_ops s (snd (fetch_handler cfg net req s))) = [] \<and>
         (\<forall>n. store_entries n (snd (fetch_handler cfg net req s)) = store_entries n s)"
proof -
  have eq: "fetch_handler cfg net req s = passthrough_strategy net req s"
    using assms by (simp add: external_def fetch_handler_def)
  show ?thesis
    by (simp add: eq passthrough_entries new_ops_def passthrough_ops is_put_def
        split: promise.splits)
qed

text \<open>A picture from a host outside the list, recognised by its extension.\<close>

theorem unlisted_image_passes_through_witness:
  "external demo_cfg unlisted_req \<and> isImageLike demo_cfg unlisted_req \<and>
   host (new_URL demo_cfg (url unlisted_req)) \<notin> set (IMAGE_HOST_WHITELIST demo_cfg) \<and>
   fetch_handler demo_cfg (serve ''photo'') unlisted_req warm_state
     = passthrough_strategy (serve ''photo'') unlisted_req warm_state \<and>
   fst (fetch_handler demo_cfg (serve ''photo'') unlisted_req warm_state)
     = RespondWith (Fulfilled (Resp (ok_response ''photo''))) \<and>
   store_entries RUNTIME (snd (fetch_handler demo_cfg (serve ''photo'') unlisted_req warm_state))
     = store_entries RUNTIME warm_state"
proof -
  have i: "isImageLike demo_cfg unlisted_req"
    by (simp add: isImageLike_def unlisted_req_def ext_match_here_def image_extensions_def
        query_tail_def line_terminator_def demo_simps)
  have w: "host (new_URL demo_cfg (url unlisted_req)) \<notin> set (IMAGE_HOST_WHITELIST demo_cfg)"
    by (simp add: IMAGE_HOST_WHITELIST_def unlisted_req_def demo_simps)
  let ?run = "fetch_handler demo_cfg (serve ''photo'') unlisted_req warm_state"
  from unlisted_image_passes_through [OF unlisted_external i w, of "serve ''photo''" warm_state]
  have eq: "?run = passthrough_strategy (serve ''photo'') unlisted_req warm_state"
    and ent: "store_entries RUNTIME (snd ?run) = store_entries RUNTIME warm_state"
    by blast+
  have "fst ?run = RespondWith (Fulfilled (Resp (ok_response ''photo'')))"
    by (simp add: eq passthrough_fst serve_def)
  with eq ent unlisted_external i w show ?thesis by simp
qed

section \<open>Activation\<close>

text \<open>
  Claim C3. When the stores of the current generation exist, after \<open>activate\<close> the
  names of the remaining stores are exactly \<open>PRECACHE\<close> and \<open>RUNTIME\<close>, their entries
  are untouched, and a deletion was requested for every enumerated name that differs from
  both.
\<close>

theorem activate_keeps_current_generation:
  assumes "PRECACHE \<in> set (store_names s)" and "RUNTIME \<in> set (store_names s)"
  shows "fst (activate s) = Fulfilled () \<and>
         set (store_names (snd (activate s))) = {PRECACHE, RUNTIME} \<and>
         store_names (snd (activate s)) =
           filter (\<lambda>n. n = PRECACHE \<or> n = RUNTIME) (store_names s) \<and>
         store_entries PRECACHE (snd (activate s)) = store_entries PRECACHE s \<and>
         store_entries RUNTIME (snd (activate s)) = store_entries RUNTIME s \<and>
         new_ops s (snd (activate s)) =
           [ClientsClaim, CachesKeys] @
           map CachesDelete (filter (\<lambda>n. n \<noteq> PRECACHE \<and> n \<noteq> RUNTIME) (store_names s))"
proof (intro conjI)
  show "fst (activate s) = Fulfilled ()"
    by (simp add: activate_sweep)
  have "map fst (filter (\<lambda>(m, es). current m) xs) = filter current (map fst xs)"
    for xs :: "(string \<times> store) list"
    by (induction xs) auto
  then have names: "store_names (snd (activate s)) = filter current (store_names s)"
    by (simp add: store_names_def caches_activate)
  then show "store_names (snd (activate s)) =
      filter (\<lambda>n. n = PRECACHE \<or> n = RUNTIME) (store_names s)"
    by (simp add: current_def [abs_def])
  show "set (store_names (snd (activate s))) = {PRECACHE, RUNTIME}"
    using assms by (auto simp: names current_def)
  show "store_entries PRECACHE (snd (activate s)) = store_entries PRECACHE s"
    by (simp add: store_entries_def caches_activate map_of_filter_fst current_def)
  show "store_entries RUNTIME (snd (activate s)) = store_entries RUNTIME s"
    by (simp add: store_entries_def caches_activate map_of_filter_fst current_def)
  show "new_ops s (snd (activate s)) =
      [ClientsClaim, CachesKeys] @
      map CachesDelete (filter (\<lambda>n. n \<noteq> PRECACHE \<and> n \<noteq> RUNTIME) (store_names s))"
    by (simp add: new_ops_def activate_sweep ops_sweep ops_emit current_def [abs_def])
qed

text \<open>Stores of three earlier generations beside the two current ones.\<close>

theorem activate_keeps_current_generation_witness:
  "PRECACHE \<in> set (store_names upgraded_state) \<and> RUNTIME \<in> set (store_names upgraded_state) \<and>
   store_names upgraded_state =
     [''precache-edu-ideas-v0.8.0'', ''runtime-edu-ideas-v0.9.0'', ''precache-edu-ideas-v0.9.5'',
      PRECACHE, RUNTIME] \<and>
   store_names (snd (activate upgraded_state)) = [PRECACHE, RUNTIME] \<and>
   new_ops upgraded_state (snd (activate upgraded_state)) =
     [ClientsClaim, CachesKeys, CachesDelete ''precache-edu-ideas-v0.8.0'',
      CachesDelete ''runtime-edu-ideas-v0.9.0'', CachesDelete ''precache-edu-ideas-v0.9.5'']"
proof -
  have n: "store_names upgraded_state =
     [''precache-edu-ideas-v0.8.0'', ''runtime-edu-ideas-v0.9.0'', ''precache-edu-ideas-v0.9.5'',
      PRECACHE, RUNTIME]"
    by (simp add: upgraded_state_def store_names_def)
  have h: "PRECACHE \<in> set (store_names upgraded_state)"
    "RUNTIME \<in> set (store_names upgraded_state)"
    by (simp_all add: n)
  have d: "PRECACHE \<noteq> RUNTIME" "''precache-edu-ideas-v0.8.0'' \<noteq> PRECACHE"
    "''precache-edu-ideas-v0.8.0'' \<noteq> RUNTIME" "''runtime-edu-ideas-v0.9.0'' \<noteq> PRECACHE"
    "''runtime-edu-ideas-v0.9.0'' \<noteq> RUNTIME" "''precache-edu-ideas-v0.9.5'' \<noteq> PRECACHE"
    "''precache-edu-ideas-v0.9.5'' \<noteq> RUNTIME"
    by (simp_all add: PRECACHE_def RUNTIME_def CACHE_VERSION_def)
  from activate_keeps_current_generation [OF h] h n d show ?thesis by simp
qed

section \<open>Installation\<close>

text \<open>
  What install does in any deployment. It fetches every URL of the manifest, and every
  request it fetches has cache mode \<^verbatim>\<open>reload\<close>. When every fetch answers with a
  response that \<^verbatim>\<open>addAll\<close> accepts and the manifest resolves to pairwise different
  URLs, install fulfils and the precache store holds, under each resolved URL, the
  response fetched for it. When one fetch fails, install rejects and \<^verbatim>\<open>skipWaiting\<close>
  is not called. Nothing is stated about what a failed batch leaves in the store.
\<close>

theorem install_precaches_manifest:
  "(\<forall>u\<in>set PRECACHE_URLS. Fetch (reloadReq cfg u) \<in> set (new_ops s (snd (install cfg net s)))) \<and>
   (\<forall>r. Fetch r \<in> set (new_ops s (snd (install cfg net s))) \<longrightarrow> cache r = ''reload'') \<and>
   ((\<forall>u\<in>set PRECACHE_URLS.
        \<exists>res. net (reloadReq cfg u) = Fulfilled res \<and> \<not> addAll_rejects (Fulfilled res)) \<and>
    distinct (map (base_resolve cfg) PRECACHE_URLS) \<longrightarrow>
      fst (install cfg net s) = Fulfilled () \<and>
      (\<forall>u\<in>set PRECACHE_URLS.
         \<exists>res. net (reloadReq cfg u) = Fulfilled res \<and>
               store_lookup PRECACHE (base_resolve cfg u) (snd (install cfg net s)) = Some res)) \<and>
   ((\<exists>u\<in>set PRECACHE_URLS. addAll_rejects (net (reloadReq cfg u))) \<longrightarrow>
      fst (install cfg net s) = Rejected \<and>
      SkipWaiting \<notin> set (new_ops s (snd (install cfg net s))))"
proof (intro conjI ballI allI impI)
  fix u assume "u \<in> set PRECACHE_URLS"
  then show "Fetch (reloadReq cfg u) \<in> set (new_ops s (snd (install cfg net s)))"
    by (simp add: install_ops manifest_requests_def)
next
  fix r assume "Fetch r \<in> set (new_ops s (snd (install cfg net s)))"
  then have "r \<in> set (manifest_requests cfg)"
    by (auto simp: install_ops fetched_puts_def split: if_splits promise.splits)
  then show "cache r = ''reload''"
    by (auto simp: manifest_requests_def reloadReq_def)
next
  assume okd: "(\<forall>u\<in>set PRECACHE_URLS.
        \<exists>res. net (reloadReq cfg u) = Fulfilled res \<and> \<not> addAll_rejects (Fulfilled res)) \<and>
    distinct (map (base_resolve cfg) PRECACHE_URLS)"
  then have ok: "\<forall>u\<in>set PRECACHE_URLS.
        \<exists>res. net (reloadReq cfg u) = Fulfilled res \<and> \<not> addAll_rejects (Fulfilled res)"
    by simp
  have "map url (manifest_requests cfg) = map (base_resolve cfg) PRECACHE_URLS"
    by (simp add: manifest_requests_def reloadReq_def)
  with okd have dist: "distinct (map url (manifest_requests cfg))"
    by simp
  from ok have no_rej: "\<not> list_ex (\<lambda>r. addAll_rejects (net r)) (manifest_requests cfg)"
    and no_pend: "\<not> list_ex (\<lambda>r. net r = Pending) (manifest_requests cfg)"
    by (auto simp: list_ex_iff manifest_requests_def)
  with dist show "fst (install cfg net s) = Fulfilled ()"
    by (simp add: install_unfold Let_def)
  fix u assume u: "u \<in> set PRECACHE_URLS"
  with ok obtain res where res: "net (reloadReq cfg u) = Fulfilled res" by blast
  have same: "\<forall>r\<in>set (manifest_requests cfg). url r = base_resolve cfg u \<longrightarrow> net r = Fulfilled res"
  proof (intro ballI impI)
    fix r assume "r \<in> set (manifest_requests cfg)" and k: "url r = base_resolve cfg u"
    then obtain u' where "r = reloadReq cfg u'" by (auto simp: manifest_requests_def)
    with k have "r = reloadReq cfg u"
      using reloadReq_same_key [of cfg u' u] by (simp add: reloadReq_def)
    with res show "net r = Fulfilled res" by simp
  qed
  have "PRECACHE \<in> set (store_names (fold (\<lambda>r. emit (Fetch r)) (manifest_requests cfg)
            (caches_open PRECACHE s)))"
    by (simp add: store_names_fold_emit store_names_caches_open)
  moreover have "\<exists>r\<in>set (manifest_requests cfg). url r = base_resolve cfg u"
    using u by (auto simp: manifest_requests_def reloadReq_def)
  ultimately have "store_lookup PRECACHE (base_resolve cfg u)
      (fold (put_fetched PRECACHE net) (manifest_requests cfg)
         (fold (\<lambda>r. emit (Fetch r)) (manifest_requests cfg) (caches_open PRECACHE s))) = Some res"
    using lookup_fold_put_fetched [OF same] by blast
  then have "store_lookup PRECACHE (base_resolve cfg u) (snd (install cfg net s)) = Some res"
    using no_rej no_pend dist by (simp add: install_unfold Let_def store_lookup_emit)
  with res show "\<exists>res. net (reloadReq cfg u) = Fulfilled res \<and>
      store_lookup PRECACHE (base_resolve cfg u) (snd (install cfg net s)) = Some res"
    by simp
next
  assume "\<exists>u\<in>set PRECACHE_URLS. addAll_rejects (net (reloadReq cfg u))"
  then have rej: "list_ex (\<lambda>r. addAll_rejects (net r)) (manifest_requests cfg)"
    by (auto simp: list_ex_iff manifest_requests_def)
  then show "fst (install cfg net s) = Rejected"
    by (simp add: install_unfold Let_def)
  then show "SkipWaiting \<notin> set (new_ops s (snd (install cfg net s)))"
    by (auto simp: install_ops)
qed

text \<open>
  A worker served from a directory, with a network that serves every URL and with one
  on which the largest icon is missing.
\<close>

theorem install_precaches_manifest_witness:
  "distinct (map (base_resolve demo_cfg) PRECACHE_URLS) \<and>
   fst (install demo_cfg (\<lambda>r. Fulfilled (ok_response (url r))) empty_state) = Fulfilled () \<and>
   store_lookup PRECACHE ''https://edu.example/book/index.html''
       (snd (install demo_cfg (\<lambda>r. Fulfilled (ok_response (url r))) empty_state))
     = Some (ok_response ''https://edu.example/book/index.html'') \<and>
   Fetch (reloadReq demo_cfg ''manifest.json'')
     \<in> set (new_ops empty_state (snd (install demo_cfg missing_icon empty_state))) \<and>
   cache (reloadReq demo_cfg ''manifest.json'') = ''reload'' \<and>
   missing_icon (reloadReq demo_cfg ''icon-512x512.png'') = Rejected \<and>
   fst (install demo_cfg missing_icon empty_state) = Rejected \<and>
   SkipWaiting \<notin> set (new_ops empty_state (snd (install demo_cfg missing_icon empty_state)))"
proof -
  let ?ok = "\<lambda>r. Fulfilled (ok_response (url r))"
  have m: "''index.html'' \<in> set PRECACHE_URLS" "''manifest.json'' \<in> set PRECACHE_URLS"
    "''icon-512x512.png'' \<in> set PRECACHE_URLS"
    by (simp_all add: PRECACHE_URLS_def)
  have d: "distinct (map (base_resolve demo_cfg) PRECACHE_URLS)"
    by (simp add: PRECACHE_URLS_def demo_fields demo_resolve_def)
  have a: "\<forall>u\<in>set PRECACHE_URLS.
      \<exists>res. ?ok (reloadReq demo_cfg u) = Fulfilled res \<and> \<not> addAll_rejects (Fulfilled res)"
    by (simp add: addAll_rejects_def ok_response_def)
  have r: "missing_icon (reloadReq demo_cfg ''icon-512x512.png'') = Rejected"
    by (simp add: missing_icon_def reloadReq_def demo_fields demo_resolve_def)
  then have b: "\<exists>u\<in>set PRECACHE_URLS. addAll_rejects (missing_icon (reloadReq demo_cfg u))"
    using m(3) by (intro bexI [of _ "''icon-512x512.png''"]) (simp_all add: addAll_rejects_def)
  have k: "base_resolve demo_cfg ''index.html'' = ''https://edu.example/book/index.html''"
    "url (reloadReq demo_cfg ''index.html'') = ''https://edu.example/book/index.html''"
    by (simp_all add: reloadReq_def demo_fields demo_resolve_def)
  from install_precaches_manifest [of demo_cfg empty_state ?ok] a d
  have good: "fst (install demo_cfg ?ok empty_state) = Fulfilled ()"
    and stored: "\<forall>u\<in>set PRECACHE_URLS.
         \<exists>res. ?ok (reloadReq demo_cfg u) = Fulfilled res \<and>
               store_lookup PRECACHE (base_resolve demo_cfg u)
                 (snd (install demo_cfg ?ok empty_state)) = Some res"
    by blast+
  from stored m(1) have shell: "store_lookup PRECACHE ''https://edu.example/book/index.html''
       (snd (install demo_cfg ?ok empty_state))
     = Some (ok_response ''https://edu.example/book/index.html'')"
    by (auto simp: k)
  from install_precaches_manifest [of demo_cfg empty_state missing_icon] b m(2)
  have bad: "Fetch (reloadReq demo_cfg ''manifest.json'')
       \<in> set (new_ops empty_state (snd (install demo_cfg missing_icon empty_state)))"
    "fst (install demo_cfg missing_icon empty_state) = Rejected"
    "SkipWaiting \<notin> set (new_ops empty_state (snd (install demo_cfg missing_icon empty_state)))"
    by blast+
  have "cache (reloadReq demo_cfg ''manifest.json'') = ''reload''"
    by (simp add: reloadReq_def)
  with d good shell bad r show ?thesis by simp
qed

text \<open>
  Claim C4 expects every resource of the manifest to be fetched with a cache-bypassing
  request and written to the precache store, install failing only when a fetch fails.
  At the scope that the header of the source declares, the manifest names one URL twice
  (\<^verbatim>\<open>/\<close> and \<^verbatim>\<open>./\<close>), so \<^verbatim>\<open>addAll\<close> rejects the batch: with every fetch
  answered with status 200, install rejects, the precache store stays empty and
  \<^verbatim>\<open>skipWaiting\<close> is not called.
\<close>

theorem install_rejects_at_root_scope:
  "base_resolve root_cfg ''/'' = ''https://edu.example/'' \<and>
   base_resolve root_cfg ''./'' = ''https://edu.example/'' \<and>
   map (\<lambda>u. case all_ok (reloadReq root_cfg u) of
               Fulfilled res \<Rightarrow> status res | Rejected \<Rightarrow> 0 | Pending \<Rightarrow> 0) PRECACHE_URLS
     = replicate (length PRECACHE_URLS) 200 \<and>
   fst (install root_cfg all_ok empty_state) = Rejected \<and>
   store_entries PRECACHE (snd (install root_cfg all_ok empty_state)) = [] \<and>
   SkipWaiting \<notin> set (new_ops empty_state (snd (install root_cfg all_ok empty_state)))"
proof -
  have f: "base_resolve root_cfg = root_resolve"
    by (simp add: root_cfg_def)
  have k: "base_resolve root_cfg ''/'' = ''https://edu.example/''"
    "base_resolve root_cfg ''./'' = ''https://edu.example/''"
    by (simp_all add: f root_resolve_def)
  have served: "map (\<lambda>u. case all_ok (reloadReq root_cfg u) of
               Fulfilled res \<Rightarrow> status res | Rejected \<Rightarrow> 0 | Pending \<Rightarrow> 0) PRECACHE_URLS
     = replicate (length PRECACHE_URLS) 200"
    by (simp add: all_ok_def ok_response_def map_replicate_const)
  have no_rej: "\<not> list_ex (\<lambda>r. addAll_rejects (all_ok r)) (manifest_requests root_cfg)"
    by (simp add: list_ex_iff all_ok_def addAll_rejects_def ok_response_def)
  have no_pend: "\<not> list_ex (\<lambda>r. all_ok r = Pending) (manifest_requests root_cfg)"
    by (simp add: list_ex_iff all_ok_def)
  have "map url (manifest_requests root_cfg) = map (base_resolve root_cfg) PRECACHE_URLS"
    by (simp add: manifest_requests_def reloadReq_def)
  then have dup: "\<not> distinct (map url (manifest_requests root_cfg))"
    by (simp add: PRECACHE_URLS_def k)
  have run: "install root_cfg all_ok empty_state =
      (Rejected, fold (\<lambda>r. emit (Fetch r)) (manifest_requests root_cfg)
                   (caches_open PRECACHE empty_state))"
    using no_rej no_pend dup by (simp add: install_unfold Let_def)
  have rej: "fst (install root_cfg all_ok empty_state) = Rejected"
    by (simp add: run)
  have "store_entries PRECACHE (fold (\<lambda>r. emit (Fetch r)) (manifest_requests root_cfg)
            (caches_open PRECACHE empty_state)) = store_entries PRECACHE empty_state"
    by (simp add: store_entries_def caches_fold_emit)
       (simp add: store_entries_def [symmetric] store_entries_caches_open)
  then have empty: "store_entries PRECACHE (snd (install root_cfg all_ok empty_state)) = []"
    by (simp add: run) (simp add: store_entries_def empty_state_def)
  have "SkipWaiting \<notin> set (new_ops empty_state (snd (install root_cfg all_ok empty_state)))"
    by (auto simp: install_ops rej)
  with k served rej empty show ?thesis
    by simp
qed

section \<open>What the precache store is read for\<close>

text \<open>
  Claim C9. Every \<^verbatim>\<open>cache.match\<close> of a run of the handler is either a lookup of the
  request's own key in the runtime store, by a request that is not a navigation, or the
  lookup of \<^verbatim>\<open>index.html\<close> in the precache store, by a navigation. For a request that
  is not a navigation the response depends on the stores only through the runtime store's
  entry for the request: what the precache store holds never reaches the response of the
  stale-while-revalidate and passthrough strategies.
\<close>

theorem precache_read_only_for_shell:
  "(\<forall>n k. CacheMatch n k \<in> set (new_ops s (snd (fetch_handler cfg net req s))) \<longrightarrow>
       (n = RUNTIME \<and> k = url req \<and> \<not> isNavigationRequest req) \<or>
       (n = PRECACHE \<and> k = base_resolve cfg ''index.html'' \<and> isNavigationRequest req)) \<and>
   (\<not> isNavigationRequest req \<and>
    store_lookup RUNTIME (url req) s = store_lookup RUNTIME (url req) s' \<longrightarrow>
       fst (fetch_handler cfg net req s) = fst (fetch_handler cfg net req s'))"
proof (intro conjI allI impI)
  fix n k
  assume m: "CacheMatch n k \<in> set (new_ops s (snd (fetch_handler cfg net req s)))"
  from handler_cases [of cfg net req s] m
  show "(n = RUNTIME \<and> k = url req \<and> \<not> isNavigationRequest req) \<or>
        (n = PRECACHE \<and> k = base_resolve cfg ''index.html'' \<and> isNavigationRequest req)"
    by (auto simp: new_ops_def navigation_ops passthrough_ops same_origin_strategy_swr
        image_strategy_swr swr_ops split: promise.splits option.splits)
next
  assume a: "\<not> isNavigationRequest req \<and>
             store_lookup RUNTIME (url req) s = store_lookup RUNTIME (url req) s'"
  then have n: "\<not> isNavigationRequest req"
    and e: "store_lookup RUNTIME (url req) s = store_lookup RUNTIME (url req) s'"
    by simp_all
  show "fst (fetch_handler cfg net req s) = fst (fetch_handler cfg net req s')"
    by (simp add: fetch_handler_def Let_def same_origin_strategy_swr image_strategy_swr swr_fst
        passthrough_fst n e split: promise.splits)
qed

text \<open>
  An offline navigation reads the precache store; an icon that only the precache store
  holds, requested while offline, is answered as if no store existed.
\<close>

theorem precache_read_only_for_shell_witness:
  "CacheMatch PRECACHE (base_resolve demo_cfg ''index.html'')
     \<in> set (new_ops precached_state (snd (fetch_handler demo_cfg offline nav_req precached_state))) \<and>
   isNavigationRequest nav_req \<and>
   \<not> isNavigationRequest icon_req \<and>
   store_lookup PRECACHE (url icon_req) precached_state = Some (ok_response ''icon'') \<and>
   store_lookup RUNTIME (url icon_req) precached_state
     = store_lookup RUNTIME (url icon_req) empty_state \<and>
   fst (fetch_handler demo_cfg offline icon_req precached_state)
     = fst (fetch_handler demo_cfg offline icon_req empty_state) \<and>
   fst (fetch_handler demo_cfg offline icon_req precached_state)
     \<noteq> RespondWith (Fulfilled (Resp (ok_response ''icon'')))"
proof -
  have nav: "req_method nav_req = ''GET''" "isNavigationRequest nav_req"
    by (simp_all add: nav_req_def demo_simps)
  then have "fetch_handler demo_cfg offline nav_req precached_state
               = navigation_strategy demo_cfg offline nav_req precached_state"
    by (simp add: fetch_handler_def)
  then have m: "CacheMatch PRECACHE (base_resolve demo_cfg ''index.html'')
     \<in> set (new_ops precached_state (snd (fetch_handler demo_cfg offline nav_req precached_state)))"
    by (simp add: new_ops_def navigation_ops offline_def)
  have i: "\<not> isNavigationRequest icon_req"
    by (simp add: icon_req_def demo_simps)
  have p: "store_lookup PRECACHE (url icon_req) precached_state = Some (ok_response ''icon'')"
    by (simp add: precached_state_def icon_req_def demo_simps)
  have r: "store_lookup RUNTIME (url icon_req) precached_state = None"
    "store_lookup RUNTIME (url icon_req) empty_state = None"
    by (simp_all add: precached_state_def empty_state_def icon_req_def demo_simps)
  have e: "fst (fetch_handler demo_cfg offline icon_req empty_state)
             = RespondWith (Fulfilled JUndefined)"
    by (simp add: handler_same_origin [OF icon_static] same_origin_strategy_swr swr_fst r
        offline_def)
  have d: "PRECACHE \<noteq> RUNTIME"
    by (simp add: PRECACHE_def RUNTIME_def)
  from precache_read_only_for_shell
      [of precached_state demo_cfg offline nav_req precached_state] m d
  have n: "isNavigationRequest nav_req"
    by blast
  from precache_read_only_for_shell
      [of precached_state demo_cfg offline icon_req empty_state] i r
  have same: "fst (fetch_handler demo_cfg offline icon_req precached_state)
                = fst (fetch_handler demo_cfg offline icon_req empty_state)"
    by simp
  have "fst (fetch_handler demo_cfg offline icon_req precached_state)
          \<noteq> RespondWith (Fulfilled (Resp (ok_response ''icon'')))"
    by (simp add: same e)
  with m n i p r same show ?thesis by simp
qed

section \<open>A miss while offline\<close>

text \<open>
  Claim C1 expects, for a stale-while-revalidate request with no entry in the runtime
  store and a rejected fetch, the response with status 504 (same-origin static) or
  \<^verbatim>\<open>Response.error()\<close> (listed image). In the code the second operand of the
  \<^verbatim>\<open>||\<close> chain is the promise \<^verbatim>\<open>networkFetch\<close>, which is truthy, so the chain never
  reaches its last operand (lemma \<open>miss_offline_undefined\<close>): for a stylesheet and
  for a thumbnail requested while offline with no stores, the promise given to
  \<^verbatim>\<open>respondWith\<close> fulfils with \<^verbatim>\<open>undefined\<close>, which is neither of the two
  responses.
\<close>

theorem offline_miss_resolves_undefined:
  "same_origin_static demo_cfg css_req \<and>
   store_lookup RUNTIME (url css_req) empty_state = None \<and>
   offline css_req = Rejected \<and>
   fst (fetch_handler demo_cfg offline css_req empty_state) = RespondWith (Fulfilled JUndefined) \<and>
   fst (fetch_handler demo_cfg offline css_req empty_state)
     \<noteq> RespondWith (Fulfilled (Resp gateway_timeout)) \<and>
   whitelisted_image demo_cfg thumb_req \<and>
   store_lookup RUNTIME (url thumb_req) empty_state = None \<and>
   offline (thumb_req\<lparr>mode := ''cors''\<rparr>) = Rejected \<and>
   fst (fetch_handler demo_cfg offline thumb_req empty_state) = RespondWith (Fulfilled JUndefined) \<and>
   fst (fetch_handler demo_cfg offline thumb_req empty_state)
     \<noteq> RespondWith (Fulfilled (Resp Response_error))"
proof -
  have c: "store_lookup RUNTIME (url css_req) empty_state = None"
    by (simp add: empty_state_def demo_simps)
  have off: "offline css_req = Rejected" "offline (thumb_req\<lparr>mode := ''cors''\<rparr>) = Rejected"
    by (simp_all add: offline_def)
  have "fst (fetch_handler demo_cfg offline css_req empty_state)
          = RespondWith (Fulfilled JUndefined)"
    using miss_offline_undefined(1) [where net = offline, OF c css_static] off by simp
  moreover have "fst (fetch_handler demo_cfg offline thumb_req empty_state)
          = RespondWith (Fulfilled JUndefined)"
    using miss_offline_undefined(2) [where net = offline, OF thumb_image_miss thumb_image] off
    by simp
  ultimately show ?thesis
    using css_static thumb_image c thumb_image_miss off by simp
qed

end
